theory Spec2Isabelle
  imports Main "HOL-Library.Multiset" "HOL-Library.Sublist" "HOL-Library.AList"
begin

section \<open>Values, exceptions and the remote endpoint\<close>

text \<open>
  The module \<^verbatim>\<open>threadpool_translate.py\<close> has two functions: \<^verbatim>\<open>translate_text\<close>, which
  sends one request to the inference endpoint and turns every exception into a string, and
  \<^verbatim>\<open>parallel_translate\<close>, which submits one call of \<^verbatim>\<open>translate_text\<close> per text to a
  \<^verbatim>\<open>ThreadPoolExecutor\<close> and appends the results in completion order.

  What the endpoint sends back is decoded by \<^verbatim>\<open>json.loads\<close>, so the values that flow
  through the program are JSON values. An object is kept as the list of its entries and
  read with \<open>map_of\<close>. A Python \<^verbatim>\<open>str\<close> is a \<open>string\<close>.
\<close>

datatype json =
    JNull
  | JBool bool
  | JInt int
  | JFloat string
  | JStr string
  | JArr "json list"
  | JObj "(string \<times> json) list"

text \<open>
  An exception is an instance of Python's \<^verbatim>\<open>Exception\<close>: the name of its class and the
  text that \<^verbatim>\<open>str(e)\<close> gives, which is what the f-strings of the source interpolate.
\<close>

datatype exn = Exn (cls: string) (msg: string)

definition py_str :: "exn \<Rightarrow> string" where
  "py_str e = msg e"

definition apostrophe :: string where
  "apostrophe = [CHR 0x27]"

definition py_repr :: "string \<Rightarrow> string" where
  "py_repr s = apostrophe @ s @ apostrophe"

definition KeyError :: "string \<Rightarrow> exn" where
  "KeyError k = Exn ''KeyError'' (py_repr k)"

definition TypeError :: "string \<Rightarrow> exn" where
  "TypeError m = Exn ''TypeError'' m"

definition AttributeError :: "string \<Rightarrow> exn" where
  "AttributeError m = Exn ''AttributeError'' m"

definition JSONDecodeError :: "string \<Rightarrow> exn" where
  "JSONDecodeError m = Exn ''JSONDecodeError'' m"

definition ValueError :: "string \<Rightarrow> exn" where
  "ValueError m = Exn ''ValueError'' m"

text \<open>Sequencing of statements that may raise: the first exception ends the block.\<close>

definition bind_exn :: "exn + 'a \<Rightarrow> ('a \<Rightarrow> exn + 'b) \<Rightarrow> exn + 'b" where
  "bind_exn m f = (case m of Inl e \<Rightarrow> Inl e | Inr x \<Rightarrow> f x)"

fun type_name :: "json \<Rightarrow> string" where
  "type_name JNull = ''NoneType''"
| "type_name (JBool b) = ''bool''"
| "type_name (JInt i) = ''int''"
| "type_name (JFloat x) = ''float''"
| "type_name (JStr s) = ''str''"
| "type_name (JArr xs) = ''list''"
| "type_name (JObj kvs) = ''dict''"

definition not_subscriptable :: "json \<Rightarrow> exn" where
  "not_subscriptable v = TypeError (py_repr (type_name v) @ '' object is not subscriptable'')"

text \<open>
  \<^verbatim>\<open>obj[key]\<close> with a string key: only a dict can answer, and a missing key is a
  \<^verbatim>\<open>KeyError\<close>; every other value raises \<^verbatim>\<open>TypeError\<close>.
\<close>

fun subscript :: "json \<Rightarrow> string \<Rightarrow> exn + json" where
  "subscript (JObj kvs) k = (case map_of kvs k of Some v \<Rightarrow> Inr v | None \<Rightarrow> Inl (KeyError k))"
| "subscript (JArr xs) k = Inl (TypeError ''list indices must be integers or slices, not str'')"
| "subscript (JStr s) k = Inl (TypeError (''string indices must be integers, not '' @ py_repr ''str''))"
| "subscript v k = Inl (not_subscriptable v)"

text \<open>
  \<^verbatim>\<open>obj[:n]\<close>: a string and a list give their first \<open>n\<close> elements; a dict and the
  scalars raise.
\<close>

fun slice_to :: "nat \<Rightarrow> json \<Rightarrow> exn + json" where
  "slice_to n (JStr s) = Inr (JStr (take n s))"
| "slice_to n (JArr xs) = Inr (JArr (take n xs))"
| "slice_to n (JObj kvs) = Inl (TypeError (''unhashable type: '' @ py_repr ''slice''))"
| "slice_to n v = Inl (not_subscriptable v)"

text \<open>
  The request handed to \<^verbatim>\<open>invoke_model\<close>. Its body is held as the value that
  \<^verbatim>\<open>json.dumps\<close> serialises.
\<close>

record request =
  body :: json
  modelId :: string
  accept :: string
  contentType :: string

text \<open>
  The answer of the endpoint. \<^verbatim>\<open>response.get('body')\<close> is \<open>None\<close> when the key is
  absent; \<^verbatim>\<open>read()\<close> on the stream raises or gives the bytes; the bytes are classified
  by what \<^verbatim>\<open>json.loads\<close> makes of them: not JSON (with the decoder's message), or the
  encoding of a JSON value.
\<close>

datatype payload = NotJson string | Json json

datatype streaming_body = StreamingBody "exn + payload"

datatype response = Response "streaming_body option"

type_synonym remote = "request \<Rightarrow> exn + response"

fun response_get_body :: "response \<Rightarrow> streaming_body option" where
  "response_get_body (Response b) = b"

fun read :: "streaming_body option \<Rightarrow> exn + payload" where
  "read None = Inl (AttributeError (py_repr ''NoneType'' @ '' object has no attribute '' @ py_repr ''read''))"
| "read (Some (StreamingBody r)) = r"

fun json_loads :: "payload \<Rightarrow> exn + json" where
  "json_loads (NotJson m) = Inl (JSONDecodeError m)"
| "json_loads (Json j) = Inr j"

section \<open>translate_text\<close>

definition default_model_id :: string where
  "default_model_id = ''apac.amazon.nova-pro-v1:0''"

definition prompt_of :: "string \<Rightarrow> string \<Rightarrow> string \<Rightarrow> string" where
  "prompt_of text source_lang target_lang =
     ''Translate the following '' @ source_lang @ '' text to '' @ target_lang @ '': '' @ text"

definition request_body :: "string \<Rightarrow> json" where
  "request_body prompt =
     JObj [(''messages'',
              JArr [JObj [(''role'', JStr ''user''),
                          (''content'', JArr [JObj [(''text'', JStr prompt)]])]]),
           (''inferenceConfig'', JObj [(''max_new_tokens'', JInt 4096)])]"

definition make_request :: "string \<Rightarrow> string \<Rightarrow> string \<Rightarrow> string \<Rightarrow> request" where
  "make_request text source_lang target_lang model_id =
     \<lparr>body = request_body (prompt_of text source_lang target_lang),
      modelId = model_id,
      accept = ''application/json'',
      contentType = ''application/json''\<rparr>"

text \<open>
  Line 59, \<^verbatim>\<open>response_body['output']['message']['content']\<close>: three subscripts, each
  of which can raise.
\<close>

definition output_message_content :: "json \<Rightarrow> exn + json" where
  "output_message_content response_body =
     bind_exn (subscript response_body ''output'') (\<lambda>output.
     bind_exn (subscript output ''message'') (\<lambda>message.
     subscript message ''content''))"

text \<open>
  Lines 58 to 61, what is done with the response. The argument of \<^verbatim>\<open>logging.info\<close>
  is evaluated before the \<^verbatim>\<open>return\<close>, so \<^verbatim>\<open>translated_text[:30]\<close> can raise
  there; the log line itself is not part of the model.
\<close>

definition decode :: "response \<Rightarrow> exn + json" where
  "decode response =
     bind_exn (read (response_get_body response)) (\<lambda>raw.
     bind_exn (json_loads raw) (\<lambda>response_body.
     bind_exn (output_message_content response_body) (\<lambda>translated_text.
     bind_exn (slice_to 30 translated_text) (\<lambda>preview.
     Inr translated_text))))"

text \<open>The body of the \<^verbatim>\<open>try\<close> (lines 52 to 61): the remote call, then the decoding.\<close>

definition try_block :: "remote \<Rightarrow> request \<Rightarrow> exn + json" where
  "try_block invoke_model req = bind_exn (invoke_model req) decode"

text \<open>
  What running a callable does: it returns or raises, and it makes remote calls.
  \<^verbatim>\<open>invoke_model\<close> is the first statement of the \<^verbatim>\<open>try\<close>, so every run of
  \<^verbatim>\<open>translate_text\<close> makes exactly one call. \<^verbatim>\<open>except Exception as e\<close> turns the
  exception into the returned string.
\<close>

type_synonym run = "(exn + json) \<times> request list"

definition translate_text :: "remote \<Rightarrow> string \<Rightarrow> string \<Rightarrow> string \<Rightarrow> string \<Rightarrow> run" where
  "translate_text invoke_model text source_lang target_lang model_id =
     (let req = make_request text source_lang target_lang model_id
      in (case try_block invoke_model req of
            Inr translated_text \<Rightarrow> Inr translated_text
          | Inl e \<Rightarrow> Inr (JStr (''Translation error: '' @ py_str e)),
          [req]))"

section \<open>parallel_translate\<close>

text \<open>
  A \<^verbatim>\<open>Future\<close> is hashed and compared by identity. Its identity is the number of
  work items the executor held when it was created; \<open>outcome\<close> is what the worker
  stores in it: the value the callable returned or the exception it raised.
\<close>

record future =
  fid :: nat
  outcome :: "exn + json"

record executor =
  max_workers :: int
  work_items :: "future list"
  remote_calls :: "request list"

text \<open>
  The constructor of \<^verbatim>\<open>ThreadPoolExecutor\<close> refuses a worker count that is not
  positive, before any pool exists.
\<close>

definition ThreadPoolExecutor :: "int \<Rightarrow> exn + executor" where
  "ThreadPoolExecutor n =
     (if n \<le> 0 then Inl (ValueError ''max_workers must be greater than 0'')
      else Inr \<lparr>max_workers = n, work_items = [], remote_calls = []\<rparr>)"

text \<open>
  \<^verbatim>\<open>executor.submit\<close> creates a new future and queues the call. The pool runs every
  queued call exactly once before the \<^verbatim>\<open>with\<close> block is left, and the calls do not
  share state, so the future's outcome is the run of its own call. The calls a run
  makes are added to the executor's record; the order in which the threads interleave
  them is not kept.
\<close>

definition submit :: "executor \<Rightarrow> run \<Rightarrow> future \<times> executor" where
  "submit ex r =
     (let f = \<lparr>fid = length (work_items ex), outcome = fst r\<rparr>
      in (f, ex\<lparr>work_items := work_items ex @ [f],
                remote_calls := remote_calls ex @ snd r\<rparr>))"

definition future_result :: "future \<Rightarrow> exn + json" where
  "future_result f = outcome f"

text \<open>
  The dict comprehension of line 76, one \<^verbatim>\<open>submit\<close> per element of \<open>texts\<close> in
  order. A dict keeps one entry per key: storing under a key that is present
  overwrites the value. The callable is a parameter: \<open>job i text\<close> is the run of the
  call submitted as work item \<open>i\<close>.
\<close>

type_synonym future_dict = "(future \<times> string) list"

fun submit_all ::
  "(nat \<Rightarrow> string \<Rightarrow> run) \<Rightarrow> string list \<Rightarrow> executor \<times> future_dict \<Rightarrow> executor \<times> future_dict"
where
  "submit_all job [] (ex, d) = (ex, d)"
| "submit_all job (text # texts) (ex, d) =
     (let (f, ex') = submit ex (job (length (work_items ex)) text)
      in submit_all job texts (ex', AList.update f text d))"

text \<open>
  \<^verbatim>\<open>as_completed\<close> yields every future once, in the order in which they finish. That
  order is decided by the threads, so it is a parameter: the schedule \<open>sched\<close> says,
  at each step, which of the futures still pending finishes next (position
  \<open>c mod n\<close> among the \<open>n\<close> pending ones; the first one when the schedule is used up).
\<close>

definition pick :: "nat list \<Rightarrow> nat \<Rightarrow> nat" where
  "pick sched n = (case sched of [] \<Rightarrow> 0 | c # cs \<Rightarrow> c mod n)"

function as_completed :: "nat list \<Rightarrow> 'a list \<Rightarrow> 'a list" where
  "as_completed sched [] = []"
| "as_completed sched (f # fs) =
     ((f # fs) ! pick sched (Suc (length fs)))
       # as_completed (tl sched)
           (take (pick sched (Suc (length fs))) (f # fs)
              @ drop (Suc (pick sched (Suc (length fs)))) (f # fs))"
  by pat_completeness auto

termination as_completed
proof (relation "measure (\<lambda>(sched, fs). length fs)")
  show "wf (measure (\<lambda>(sched :: nat list, fs :: 'a list). length fs))"
    by simp
next
  fix sched :: "nat list" and f :: 'a and fs :: "'a list"
  have "pick sched (Suc (length fs)) < Suc (length fs)"
    by (simp add: pick_def split: list.split)
  then show "((tl sched,
               take (pick sched (Suc (length fs))) (f # fs)
                 @ drop (Suc (pick sched (Suc (length fs)))) (f # fs)),
              (sched, f # fs)) \<in> measure (\<lambda>(sched, fs). length fs)"
    by (simp add: min_def)
qed

text \<open>
  One turn of the collection loop (lines 82 to 87): the value of \<^verbatim>\<open>future.result()\<close>
  is appended as it is; an exception raised by it is appended as a string that quotes
  the original text.
\<close>

definition collect_one :: "string \<Rightarrow> future \<Rightarrow> json" where
  "collect_one original_text f =
     (case future_result f of
        Inr translated_text \<Rightarrow> translated_text
      | Inl exc \<Rightarrow>
          JStr (''Error for '' @ apostrophe @ original_text @ apostrophe @ '': '' @ py_str exc))"

text \<open>
  The loop of line 80. \<^verbatim>\<open>future_to_text[future]\<close> raises \<^verbatim>\<open>KeyError\<close> for a key
  that is not in the dict, outside the \<^verbatim>\<open>try\<close>.
\<close>

fun collect :: "future_dict \<Rightarrow> future list \<Rightarrow> json list \<Rightarrow> exn + json list" where
  "collect future_to_text [] translated_results = Inr translated_results"
| "collect future_to_text (f # fs) translated_results =
     (case map_of future_to_text f of
        None \<Rightarrow> Inl (KeyError ''<Future>'')
      | Some original_text \<Rightarrow>
          collect future_to_text fs (translated_results @ [collect_one original_text f]))"

text \<open>
  What a call of the batch operation does: the list it returns or the exception it
  raises, the number of jobs it submitted and the remote calls that were made.
\<close>

record batch =
  returned :: "exn + json list"
  submitted :: nat
  calls :: "request list"

definition parallel_translate_with ::
  "(nat \<Rightarrow> string \<Rightarrow> run) \<Rightarrow> nat list \<Rightarrow> string list \<Rightarrow> int \<Rightarrow> batch"
where
  "parallel_translate_with job sched texts n =
     (case ThreadPoolExecutor n of
        Inl e \<Rightarrow> \<lparr>returned = Inl e, submitted = 0, calls = []\<rparr>
      | Inr executor \<Rightarrow>
          (let (executor', future_to_text) = submit_all job texts (executor, [])
           in \<lparr>returned = collect future_to_text (as_completed sched (map fst future_to_text)) [],
               submitted = length (work_items executor'),
               calls = remote_calls executor'\<rparr>))"

text \<open>
  \<^verbatim>\<open>parallel_translate\<close> submits \<^verbatim>\<open>translate_text\<close> with the default model.
  \<open>endpoint i\<close> is how the endpoint answers the call of work item \<open>i\<close>.
\<close>

definition parallel_translate ::
  "(nat \<Rightarrow> remote) \<Rightarrow> nat list \<Rightarrow> string list \<Rightarrow> string \<Rightarrow> string \<Rightarrow> int \<Rightarrow> batch"
where
  "parallel_translate endpoint sched texts source_lang target_lang n =
     parallel_translate_with
       (\<lambda>i text. translate_text (endpoint i) text source_lang target_lang default_model_id)
       sched texts n"

section \<open>Auxiliary definitions\<close>

text \<open>The future that \<open>submit\<close> creates for work item \<open>i\<close>, running \<open>job i text\<close>.\<close>

definition job_future :: "(nat \<Rightarrow> string \<Rightarrow> run) \<Rightarrow> nat \<Rightarrow> string \<Rightarrow> future" where
  "job_future job i text = \<lparr>fid = i, outcome = fst (job i text)\<rparr>"

text \<open>The dict that line 76 builds from an executor that holds no work items.\<close>

definition dict_of :: "(nat \<Rightarrow> string \<Rightarrow> run) \<Rightarrow> string list \<Rightarrow> future_dict" where
  "dict_of job texts = map (\<lambda>(i, t). (job_future job i t, t)) (enumerate 0 texts)"

text \<open>
  Endpoints for the examples: one whose call raises \<open>e\<close>, one whose body is not JSON,
  one whose body is the encoding of \<open>j\<close>, and one whose body holds \<open>content\<close> at
  \<^verbatim>\<open>output.message.content\<close>.
\<close>

definition raising :: "exn \<Rightarrow> remote" where
  "raising e req = Inl e"

definition garbled :: "string \<Rightarrow> remote" where
  "garbled m req = Inr (Response (Some (StreamingBody (Inr (NotJson m)))))"

definition replying :: "json \<Rightarrow> remote" where
  "replying j req = Inr (Response (Some (StreamingBody (Inr (Json j)))))"

definition envelope :: "json \<Rightarrow> json" where
  "envelope content = JObj [(''output'', JObj [(''message'', JObj [(''content'', content)])])]"

definition answering :: "json \<Rightarrow> remote" where
  "answering content = replying (envelope content)"

text \<open>
  The scenario of two texts in which the call of the first job fails in transport and
  the call of the second one succeeds.
\<close>

definition timed_out :: exn where
  "timed_out = Exn ''ReadTimeoutError'' ''timed out''"

definition first_call_fails :: "nat \<Rightarrow> remote" where
  "first_call_fails i = (if i = 0 then raising timed_out else answering (JStr ''World!!''))"

text \<open>A callable that raises in work item 0 and returns its text otherwise, without remote calls.\<close>

definition first_job_crashes :: "nat \<Rightarrow> string \<Rightarrow> run" where
  "first_job_crashes i text =
     (if i = 0 then (Inl (Exn ''RuntimeError'' ''boom''), []) else (Inr (JStr text), []))"

text \<open>An endpoint that answers the call of work item \<open>i\<close> with the number \<open>i\<close> as text.\<close>

definition numbered :: "nat \<Rightarrow> remote" where
  "numbered i = answering (JStr (replicate i CHR ''x''))"

section \<open>The dispatcher, step by step\<close>

lemma pick_less: "0 < n \<Longrightarrow> pick sched n < n"
  by (simp add: pick_def split: list.split)

lemma update_fresh: "k \<notin> fst ` set al \<Longrightarrow> AList.update k v al = al @ [(k, v)]"
  by (induction al) auto

lemma submit_all_spec:
  "\<forall>f \<in> fst ` set d. fid f < length (work_items ex) \<Longrightarrow>
   submit_all job texts (ex, d) =
     (ex\<lparr>work_items := work_items ex
            @ map (\<lambda>(i, t). job_future job i t) (enumerate (length (work_items ex)) texts),
         remote_calls := remote_calls ex
            @ concat (map (\<lambda>(i, t). snd (job i t)) (enumerate (length (work_items ex)) texts))\<rparr>,
      d @ map (\<lambda>(i, t). (job_future job i t, t)) (enumerate (length (work_items ex)) texts))"
proof (induction texts arbitrary: ex d)
  case Nil
  then show ?case by simp
next
  case (Cons t ts)
  let ?n = "length (work_items ex)"
  let ?f = "job_future job ?n t"
  let ?ex = "ex\<lparr>work_items := work_items ex @ [?f], remote_calls := remote_calls ex @ snd (job ?n t)\<rparr>"
  have fresh: "?f \<notin> fst ` set d"
  proof
    assume "?f \<in> fst ` set d"
    with Cons.prems have "fid ?f < ?n" by blast
    then show False by (simp add: job_future_def)
  qed
  have step: "submit_all job (t # ts) (ex, d) = submit_all job ts (?ex, d @ [(?f, t)])"
    using fresh by (simp add: submit_def job_future_def Let_def update_fresh)
  have inv: "\<forall>f \<in> fst ` set (d @ [(?f, t)]). fid f < length (work_items ?ex)"
    using Cons.prems by (auto simp: job_future_def less_Suc_eq)
  show ?case
    unfolding step Cons.IH [OF inv]
    by simp
qed

lemma submit_all_empty:
  "submit_all job texts (\<lparr>max_workers = n, work_items = [], remote_calls = []\<rparr>, []) =
     (\<lparr>max_workers = n,
       work_items = map fst (dict_of job texts),
       remote_calls = concat (map (\<lambda>(i, t). snd (job i t)) (enumerate 0 texts))\<rparr>,
      dict_of job texts)"
proof -
  have "\<forall>f \<in> fst ` set ([] :: future_dict).
          fid f < length (work_items \<lparr>max_workers = n, work_items = [], remote_calls = []\<rparr>)"
    by simp
  from submit_all_spec [OF this, of job texts] show ?thesis
    by (simp add: dict_of_def comp_def case_prod_beta)
qed

lemma snd_dict_of: "map snd (dict_of job texts) = texts"
proof -
  have "map snd (dict_of job texts) = map snd (enumerate 0 texts)"
    by (simp add: dict_of_def comp_def case_prod_beta)
  then show ?thesis by simp
qed

lemma distinct_dict_of: "distinct (map fst (dict_of job texts))"
proof -
  have "map fid (map fst (dict_of job texts)) = map fst (enumerate 0 texts)"
    by (simp add: dict_of_def job_future_def comp_def case_prod_beta)
  then have "distinct (map fid (map fst (dict_of job texts)))"
    by simp
  then show ?thesis
    using distinct_map [of fid "map fst (dict_of job texts)"] by blast
qed

lemma as_completed_step:
  "fs \<noteq> [] \<Longrightarrow>
   as_completed sched fs =
     (fs ! pick sched (length fs))
       # as_completed (tl sched)
           (take (pick sched (length fs)) fs @ drop (Suc (pick sched (length fs))) fs)"
  by (cases fs) (simp_all del: take_Suc_Cons drop_Suc_Cons nth_Cons_Suc)

lemma mset_as_completed: "mset (as_completed sched fs) = mset fs"
proof (induction sched fs rule: as_completed.induct)
  case (1 sched)
  then show ?case by simp
next
  case (2 sched f fs)
  let ?k = "pick sched (Suc (length fs))"
  have k: "?k < length (f # fs)"
    using pick_less [of "Suc (length fs)" sched] by simp
  have "mset (f # fs) = mset (take ?k (f # fs) @ (f # fs) ! ?k # drop (Suc ?k) (f # fs))"
    using id_take_nth_drop [OF k] by simp
  then show ?case
    using 2 by (simp del: take_Suc_Cons drop_Suc_Cons nth_Cons_Suc)
qed

lemma as_completed_map: "as_completed sched (map h xs) = map h (as_completed sched xs)"
proof (induction sched xs rule: as_completed.induct)
  case (1 sched)
  then show ?case by simp
next
  case (2 sched f fs)
  let ?xs = "f # fs"
  let ?k = "pick sched (length ?xs)"
  have k: "?k < length ?xs"
    using pick_less [of "length ?xs" sched] by simp
  have "as_completed sched (map h ?xs) =
          (map h ?xs ! ?k) # as_completed (tl sched) (map h (take ?k ?xs @ drop (Suc ?k) ?xs))"
    using as_completed_step [of "map h ?xs" sched]
    by (simp only: length_map take_map drop_map map_append) simp
  also have "map h ?xs ! ?k = h (?xs ! ?k)"
    using k by (rule nth_map)
  also have "as_completed (tl sched) (map h (take ?k ?xs @ drop (Suc ?k) ?xs)) =
               map h (as_completed (tl sched) (take ?k ?xs @ drop (Suc ?k) ?xs))"
    using 2 by simp
  finally show ?case
    using as_completed_step [of ?xs sched] by simp
qed

lemma collect_pairs:
  "distinct (map fst d) \<Longrightarrow> set ps \<subseteq> set d \<Longrightarrow>
   collect d (map fst ps) acc = Inr (acc @ map (\<lambda>(f, t). collect_one t f) ps)"
proof (induction ps arbitrary: acc)
  case Nil
  then show ?case by simp
next
  case (Cons p ps)
  have "(fst p, snd p) \<in> set d" using Cons.prems(2) by simp
  then have "map_of d (fst p) = Some (snd p)"
    by (rule map_of_is_SomeI [OF Cons.prems(1)])
  moreover have "set ps \<subseteq> set d" using Cons.prems(2) by simp
  ultimately show ?case
    using Cons.IH [OF Cons.prems(1)] by (simp add: case_prod_beta)
qed

lemma dispatch_exact:
  assumes "0 < n"
  shows "parallel_translate_with job sched texts n =
           \<lparr>returned = Inr (map (\<lambda>(i, t). collect_one t (job_future job i t))
                               (as_completed sched (enumerate 0 texts))),
            submitted = length texts,
            calls = concat (map (\<lambda>(i, t). snd (job i t)) (enumerate 0 texts))\<rparr>"
proof -
  let ?d = "dict_of job texts"
  let ?h = "\<lambda>(i, t). (job_future job i t, t)"
  have order: "as_completed sched (map fst ?d) = map fst (as_completed sched ?d)"
    by (rule as_completed_map)
  have sub: "set (as_completed sched ?d) \<subseteq> set ?d"
    using mset_eq_setD [OF mset_as_completed [of sched ?d]] by simp
  have "collect ?d (as_completed sched (map fst ?d)) [] =
          Inr (map (\<lambda>(f, t). collect_one t f) (as_completed sched ?d))"
    unfolding order using collect_pairs [OF distinct_dict_of sub, of "[]"] by simp
  also have "as_completed sched ?d = map ?h (as_completed sched (enumerate 0 texts))"
    unfolding dict_of_def by (rule as_completed_map)
  also have "map (\<lambda>(f, t). collect_one t f) (map ?h (as_completed sched (enumerate 0 texts))) =
               map (\<lambda>(i, t). collect_one t (job_future job i t))
                 (as_completed sched (enumerate 0 texts))"
    by (simp add: comp_def case_prod_beta)
  finally have c: "collect ?d (as_completed sched (map fst ?d)) [] =
      Inr (map (\<lambda>(i, t). collect_one t (job_future job i t))
             (as_completed sched (enumerate 0 texts)))" .
  have l: "length (map fst ?d) = length texts"
    by (simp add: dict_of_def)
  show ?thesis
    using assms c l
    by (simp add: parallel_translate_with_def ThreadPoolExecutor_def submit_all_empty)
qed

lemma dispatch_rejects:
  "n \<le> 0 \<Longrightarrow>
   parallel_translate_with job sched texts n =
     \<lparr>returned = Inl (ValueError ''max_workers must be greater than 0''),
      submitted = 0, calls = []\<rparr>"
  by (simp add: parallel_translate_with_def ThreadPoolExecutor_def)

section \<open>The claims\<close>

lemma translate_text_calls:
  "snd (translate_text invoke_model text source_lang target_lang model_id) = [make_request text source_lang target_lang model_id]"
  by (simp add: translate_text_def Let_def)

lemma translate_text_returns:
  "fst (translate_text invoke_model text source_lang target_lang model_id) =
     Inr (case try_block invoke_model (make_request text source_lang target_lang model_id) of
            Inr translated_text \<Rightarrow> translated_text
          | Inl e \<Rightarrow> JStr (''Translation error: '' @ py_str e))"
  by (simp add: translate_text_def Let_def split: sum.split)

lemma try_block_raising: "try_block (raising e) req = Inl e"
  by (simp add: try_block_def raising_def bind_exn_def)

lemma output_message_content_envelope: "output_message_content (envelope c) = Inr c"
  by (simp add: output_message_content_def envelope_def bind_exn_def)

lemma decode_garbled:
  "decode (Response (Some (StreamingBody (Inr (NotJson x))))) = Inl (JSONDecodeError x)"
  by (simp add: decode_def bind_exn_def)

lemma try_block_garbled: "try_block (garbled x) req = Inl (JSONDecodeError x)"
  by (simp add: try_block_def garbled_def bind_exn_def decode_garbled)

lemma try_block_answering_str: "try_block (answering (JStr s)) req = Inr (JStr s)"
  by (simp add: try_block_def answering_def replying_def decode_def bind_exn_def
      output_message_content_envelope)

text \<open>
  Claim C3. For every text, language pair and model id, and whatever the endpoint does,
  \<open>translate_text\<close> returns a value and does not raise; whenever the body of the
  \<^verbatim>\<open>try\<close> raises an exception \<open>e\<close> (the remote call fails in transport, the body
  is absent or is not JSON, a field of the nested path is missing), the value returned
  is the string \<^verbatim>\<open>Translation error: \<close> followed by \<^verbatim>\<open>str(e)\<close>.
\<close>

theorem translate_text_never_raises:
  "\<exists>outcome. fst (translate_text invoke_model text source_lang target_lang model_id) = Inr outcome \<and>
     (\<forall>e. try_block invoke_model (make_request text source_lang target_lang model_id) = Inl e \<longrightarrow>
          outcome = JStr (''Translation error: '' @ py_str e))"
  by (simp add: translate_text_returns)

text \<open>
  The three kinds of failure at concrete endpoints: a transport error, a body that is
  not JSON, and a JSON body without the key \<^verbatim>\<open>output\<close>.
\<close>

theorem translate_text_never_raises_witness:
  "try_block (raising timed_out) (make_request ''Hello'' ''en'' ''ja'' default_model_id) = Inl timed_out
   \<and> fst (translate_text (raising timed_out) ''Hello'' ''en'' ''ja'' default_model_id)
       = Inr (JStr ''Translation error: timed out'')
   \<and> try_block (garbled ''Expecting value'') (make_request ''Hello'' ''en'' ''ja'' default_model_id)
       = Inl (JSONDecodeError ''Expecting value'')
   \<and> fst (translate_text (garbled ''Expecting value'') ''Hello'' ''en'' ''ja'' default_model_id)
       = Inr (JStr ''Translation error: Expecting value'')
   \<and> try_block (replying (JObj [])) (make_request ''Hello'' ''en'' ''ja'' default_model_id)
       = Inl (KeyError ''output'')
   \<and> fst (translate_text (replying (JObj [])) ''Hello'' ''en'' ''ja'' default_model_id)
       = Inr (JStr (''Translation error: '' @ py_repr ''output''))"
proof -
  let ?req = "make_request ''Hello'' ''en'' ''ja'' default_model_id"
  have a: "try_block (raising timed_out) ?req = Inl timed_out"
    by (rule try_block_raising)
  have b: "try_block (garbled ''Expecting value'') ?req = Inl (JSONDecodeError ''Expecting value'')"
    by (rule try_block_garbled)
  have c: "try_block (replying (JObj [])) ?req = Inl (KeyError ''output'')"
    by (simp add: try_block_def replying_def decode_def bind_exn_def output_message_content_def)
  from translate_text_never_raises [of "raising timed_out" "''Hello''" "''en''" "''ja''" default_model_id] a
  have a': "fst (translate_text (raising timed_out) ''Hello'' ''en'' ''ja'' default_model_id)
       = Inr (JStr ''Translation error: timed out'')"
    by (auto simp: py_str_def timed_out_def)
  from translate_text_never_raises [of "garbled ''Expecting value''" "''Hello''" "''en''" "''ja''" default_model_id] b
  have b': "fst (translate_text (garbled ''Expecting value'') ''Hello'' ''en'' ''ja'' default_model_id)
       = Inr (JStr ''Translation error: Expecting value'')"
    by (auto simp: py_str_def JSONDecodeError_def)
  from translate_text_never_raises [of "replying (JObj [])" "''Hello''" "''en''" "''ja''" default_model_id] c
  have c': "fst (translate_text (replying (JObj [])) ''Hello'' ''en'' ''ja'' default_model_id)
       = Inr (JStr (''Translation error: '' @ py_repr ''output''))"
    by (auto simp: py_str_def KeyError_def)
  from a a' b b' c c' show ?thesis by blast
qed



text \<open>
  What is returned is the value found at the path, of whatever kind, provided it can be
  sliced for the log line: a list is returned as a list; a number, a boolean, null or an
  object at the path gives the failure string.
\<close>

lemma translate_text_content:
  "fst (translate_text (answering c) text source_lang target_lang model_id) =
     Inr (case slice_to 30 c of
            Inr preview \<Rightarrow> c
          | Inl e \<Rightarrow> JStr (''Translation error: '' @ py_str e))"
  by (simp add: translate_text_returns try_block_def answering_def replying_def decode_def
      bind_exn_def output_message_content_envelope split: sum.split)

text \<open>
  The failure string does not quote the text: for the text \<^verbatim>\<open>Hello\<close> and a call that
  times out, the outcome is \<^verbatim>\<open>Translation error: timed out\<close>, in which \<^verbatim>\<open>Hello\<close>
  does not occur.
\<close>

theorem failure_reference_counterexample:
  "raising timed_out (make_request ''Hello'' ''en'' ''ja'' default_model_id) = Inl timed_out
   \<and> fst (translate_text (raising timed_out) ''Hello'' ''en'' ''ja'' default_model_id)
       = Inr (JStr ''Translation error: timed out'')
   \<and> \<not> sublist ''Hello'' ''Translation error: timed out''"
proof -
  have "\<not> sublist ''Hello'' ''Translation error: timed out''"
    by (simp add: sublist_Cons_right)
  then show ?thesis
    by (simp add: translate_text_returns try_block_raising raising_def py_str_def timed_out_def)
qed

text \<open>
  Claim C2, as the code has it. When the remote call raises \<open>e\<close>, or returns a response
  that the decoding of lines 58 to 61 rejects with \<open>e\<close>, the outcome is the string
  \<^verbatim>\<open>Translation error: \<close> followed by \<^verbatim>\<open>str(e)\<close>. The original text is not part of
  it: the text goes to the log line only.
\<close>

theorem translate_text_failure_string:
  assumes "invoke_model (make_request text source_lang target_lang model_id) = Inl e
           \<or> (\<exists>response. invoke_model (make_request text source_lang target_lang model_id) = Inr response
                \<and> decode response = Inl e)"
  shows "fst (translate_text invoke_model text source_lang target_lang model_id) = Inr (JStr (''Translation error: '' @ py_str e))"
proof -
  from assms have "try_block invoke_model (make_request text source_lang target_lang model_id) = Inl e"
    by (auto simp: try_block_def bind_exn_def)
  then show ?thesis by (simp add: translate_text_returns)
qed

theorem translate_text_failure_string_witness:
  "(raising timed_out (make_request ''Hello'' ''en'' ''ja'' default_model_id) = Inl timed_out
    \<or> (\<exists>response. raising timed_out (make_request ''Hello'' ''en'' ''ja'' default_model_id) = Inr response
          \<and> decode response = Inl timed_out))
   \<and> fst (translate_text (raising timed_out) ''Hello'' ''en'' ''ja'' default_model_id)
       = Inr (JStr ''Translation error: timed out'')
   \<and> fst (translate_text (raising timed_out) ''World'' ''en'' ''ja'' default_model_id)
       = Inr (JStr ''Translation error: timed out'')
   \<and> (\<exists>response. garbled ''Expecting value'' (make_request ''Hello'' ''en'' ''ja'' default_model_id) = Inr response
          \<and> decode response = Inl (JSONDecodeError ''Expecting value''))
   \<and> fst (translate_text (garbled ''Expecting value'') ''Hello'' ''en'' ''ja'' default_model_id)
       = Inr (JStr ''Translation error: Expecting value'')"
proof -
  have a: "raising timed_out (make_request t ''en'' ''ja'' default_model_id) = Inl timed_out" for t
    by (simp add: raising_def)
  have b: "\<exists>response. garbled ''Expecting value'' (make_request ''Hello'' ''en'' ''ja'' default_model_id) = Inr response
          \<and> decode response = Inl (JSONDecodeError ''Expecting value'')"
    by (simp add: garbled_def decode_garbled)
  have "fst (translate_text (raising timed_out) t ''en'' ''ja'' default_model_id)
       = Inr (JStr ''Translation error: timed out'')" for t
    using translate_text_failure_string [of "raising timed_out" t "''en''" "''ja''" default_model_id timed_out] a
    by (simp add: py_str_def timed_out_def)
  moreover have "fst (translate_text (garbled ''Expecting value'') ''Hello'' ''en'' ''ja'' default_model_id)
       = Inr (JStr ''Translation error: Expecting value'')"
    using translate_text_failure_string [of "garbled ''Expecting value''" "''Hello''" "''en''" "''ja''"
        default_model_id "JSONDecodeError ''Expecting value''"] b
    by (simp add: py_str_def JSONDecodeError_def)
  ultimately show ?thesis using a b by blast
qed

lemma collect_one_eq:
  "collect_one t (job_future job i t) =
     (case fst (job i t) of
        Inr v \<Rightarrow> v
      | Inl exc \<Rightarrow> JStr (''Error for '' @ apostrophe @ t @ apostrophe @ '': '' @ py_str exc))"
  by (simp add: collect_one_def future_result_def job_future_def)

lemma dispatch_mset:
  assumes "0 < n"
  shows "\<exists>rs. returned (parallel_translate_with job sched texts n) = Inr rs
           \<and> length rs = length texts
           \<and> mset rs = mset (map (\<lambda>(i, t). collect_one t (job_future job i t)) (enumerate 0 texts))"
proof -
  let ?g = "\<lambda>(i, t). collect_one t (job_future job i t)"
  let ?order = "as_completed sched (enumerate 0 texts)"
  have perm: "mset ?order = mset (enumerate 0 texts)"
    by (rule mset_as_completed)
  have "mset (map ?g ?order) = image_mset ?g (mset ?order)" by simp
  also have "\<dots> = mset (map ?g (enumerate 0 texts))" by (simp only: perm mset_map)
  finally have m: "mset (map ?g ?order) = mset (map ?g (enumerate 0 texts))" .
  have "length ?order = length (enumerate 0 texts)"
    using perm by (rule mset_eq_length)
  then have l: "length (map ?g ?order) = length texts" by simp
  have "returned (parallel_translate_with job sched texts n) = Inr (map ?g ?order)"
    by (simp add: dispatch_exact [OF assms])
  with m l show ?thesis by blast
qed

text \<open>
  Claim C1. For every list of texts, every positive worker count and every completion
  order, \<open>parallel_translate\<close> returns a list with as many entries as there are texts,
  and the entries are, as a multiset, exactly the values returned by the jobs, one per
  submitted job: none is dropped and none is repeated.
\<close>

theorem parallel_translate_one_outcome_per_job:
  assumes "0 < n"
  shows "\<exists>rs. returned (parallel_translate endpoint sched texts source_lang target_lang n) = Inr rs
           \<and> length rs = length texts
           \<and> mset (map Inr rs) =
               mset (map (\<lambda>(i, t). fst (translate_text (endpoint i) t source_lang target_lang
                                          default_model_id))
                      (enumerate 0 texts))"
proof -
  let ?job = "\<lambda>i text. translate_text (endpoint i) text source_lang target_lang default_model_id"
  from dispatch_mset [OF assms, of ?job sched texts]
  obtain rs where r: "returned (parallel_translate_with ?job sched texts n) = Inr rs"
    and l: "length rs = length texts"
    and m: "mset rs = mset (map (\<lambda>(i, t). collect_one t (job_future ?job i t)) (enumerate 0 texts))"
    by blast
  let ?g = "\<lambda>(i, t). collect_one t (job_future ?job i t)"
  let ?E = "enumerate 0 texts"
  have eq: "map (\<lambda>p. Inr (?g p)) ?E = map (\<lambda>(i, t). fst (?job i t)) ?E"
    by (rule map_cong [OF refl]) (simp add: case_prod_beta collect_one_eq translate_text_returns)
  have "mset (map Inr rs) = image_mset Inr (mset rs)" by simp
  also have "\<dots> = image_mset Inr (mset (map ?g ?E))" by (simp only: m)
  also have "\<dots> = mset (map (\<lambda>p. Inr (?g p)) ?E)"
    by (simp add: multiset.map_comp comp_def)
  also have "\<dots> = mset (map (\<lambda>(i, t). fst (?job i t)) ?E)" by (simp only: eq)
  finally have "mset (map Inr rs) = mset (map (\<lambda>(i, t). fst (?job i t)) ?E)" .
  with r l show ?thesis
    unfolding parallel_translate_def by blast
qed

theorem parallel_translate_one_outcome_per_job_witness:
  "(0::int) < 2
   \<and> (\<exists>rs. returned (parallel_translate first_call_fails [1] [''Hello'', ''World''] ''en'' ''ja'' 2) = Inr rs
           \<and> length rs = length [''Hello'', ''World'']
           \<and> mset (map Inr rs) =
               mset (map (\<lambda>(i, t). fst (translate_text (first_call_fails i) t ''en'' ''ja''
                                          default_model_id))
                      (enumerate 0 [''Hello'', ''World''])))
   \<and> returned (parallel_translate first_call_fails [1] [''Hello'', ''World''] ''en'' ''ja'' 2)
       = Inr [JStr ''World!!'', JStr ''Translation error: timed out'']"
proof -
  have h: "(0::int) < 2" by simp
  have "returned (parallel_translate first_call_fails [1] [''Hello'', ''World''] ''en'' ''ja'' 2)
       = Inr [JStr ''World!!'', JStr ''Translation error: timed out'']"
    by (simp add: parallel_translate_def dispatch_exact pick_def collect_one_eq
        translate_text_returns first_call_fails_def try_block_raising try_block_answering_str
        py_str_def timed_out_def)
  with h parallel_translate_one_outcome_per_job [OF h, of first_call_fails "[1]"
      "[''Hello'', ''World'']" "''en''" "''ja''"]
  show ?thesis by blast
qed

text \<open>
  Claim C5. Whatever callable is submitted, with a positive worker count the collection
  loop returns one entry per job: the value of a job that returned, and for a job that
  raised \<open>exc\<close> the string \<^verbatim>\<open>Error for '<text>': <exc>\<close> built from the text that the
  dict associates with that job's future. A job that raises therefore does not stop the
  loop, and its entry names its own text.
\<close>

theorem job_exception_becomes_entry:
  assumes "0 < n"
  shows "\<exists>rs. returned (parallel_translate_with job sched texts n) = Inr rs
           \<and> length rs = length texts
           \<and> mset rs =
               mset (map (\<lambda>(i, t). case fst (job i t) of
                                      Inr v \<Rightarrow> v
                                    | Inl exc \<Rightarrow>
                                        JStr (''Error for '' @ apostrophe @ t @ apostrophe
                                                @ '': '' @ py_str exc))
                      (enumerate 0 texts))
           \<and> (\<forall>i exc. i < length texts \<and> fst (job i (texts ! i)) = Inl exc \<longrightarrow>
                  JStr (''Error for '' @ apostrophe @ texts ! i @ apostrophe @ '': '' @ py_str exc)
                    \<in> set rs)"
proof -
  let ?g = "\<lambda>(i, t). collect_one t (job_future job i t)"
  let ?e = "\<lambda>(i, t). case fst (job i t) of
              Inr v \<Rightarrow> v
            | Inl exc \<Rightarrow> JStr (''Error for '' @ apostrophe @ t @ apostrophe @ '': '' @ py_str exc)"
  from dispatch_mset [OF assms, of job sched texts]
  obtain rs where r: "returned (parallel_translate_with job sched texts n) = Inr rs"
    and l: "length rs = length texts"
    and m: "mset rs = mset (map ?g (enumerate 0 texts))"
    by blast
  have "?g = ?e"
    by (rule ext) (simp add: case_prod_beta collect_one_eq)
  with m have m': "mset rs = mset (map ?e (enumerate 0 texts))"
    by simp
  have "JStr (''Error for '' @ apostrophe @ texts ! i @ apostrophe @ '': '' @ py_str exc) \<in> set rs"
    if i: "i < length texts" and x: "fst (job i (texts ! i)) = Inl exc" for i exc
  proof -
    have "(i, texts ! i) \<in> set (enumerate 0 texts)"
      using i by (simp add: in_set_enumerate_eq)
    then have "?e (i, texts ! i) \<in> set (map ?e (enumerate 0 texts))"
      unfolding set_map by (rule imageI)
    moreover have "set rs = set (map ?e (enumerate 0 texts))"
      using m' by (rule mset_eq_setD)
    ultimately show ?thesis using x by simp
  qed
  with r l m' show ?thesis by blast
qed

theorem job_exception_becomes_entry_witness:
  "(0::int) < 2
   \<and> fst (first_job_crashes 0 ([''Hello'', ''World''] ! 0)) = Inl (Exn ''RuntimeError'' ''boom'')
   \<and> returned (parallel_translate_with first_job_crashes [] [''Hello'', ''World''] 2)
       = Inr [JStr (''Error for '' @ apostrophe @ ''Hello'' @ apostrophe @ '': boom''), JStr ''World'']
   \<and> (\<exists>rs. returned (parallel_translate_with first_job_crashes [] [''Hello'', ''World''] 2) = Inr rs
          \<and> length rs = length [''Hello'', ''World'']
          \<and> JStr (''Error for '' @ apostrophe @ [''Hello'', ''World''] ! 0 @ apostrophe @ '': ''
                    @ py_str (Exn ''RuntimeError'' ''boom'')) \<in> set rs)"
proof -
  have h: "(0::int) < 2" by simp
  have x: "fst (first_job_crashes 0 ([''Hello'', ''World''] ! 0)) = Inl (Exn ''RuntimeError'' ''boom'')"
    by (simp add: first_job_crashes_def)
  have c: "returned (parallel_translate_with first_job_crashes [] [''Hello'', ''World''] 2)
       = Inr [JStr (''Error for '' @ apostrophe @ ''Hello'' @ apostrophe @ '': boom''), JStr ''World'']"
    by (simp add: dispatch_exact pick_def collect_one_eq first_job_crashes_def py_str_def)
  from job_exception_becomes_entry [OF h, of first_job_crashes "[]" "[''Hello'', ''World'']"]
  obtain rs where "returned (parallel_translate_with first_job_crashes [] [''Hello'', ''World''] 2) = Inr rs"
    and "length rs = length [''Hello'', ''World'']"
    and "\<forall>i exc. i < length [''Hello'', ''World'']
            \<and> fst (first_job_crashes i ([''Hello'', ''World''] ! i)) = Inl exc \<longrightarrow>
            JStr (''Error for '' @ apostrophe @ [''Hello'', ''World''] ! i @ apostrophe @ '': ''
                    @ py_str exc) \<in> set rs"
    by blast
  with h x c show ?thesis by fastforce
qed

text \<open>
  Claim C6. For the same endpoint behaviour per job, any two positive worker counts and
  any two completion orders give the same multiset of outcomes (and the same remote
  calls); only the order of the list can differ.
\<close>

theorem max_workers_only_timing:
  assumes "0 < w1" and "0 < w2"
  shows "\<exists>r1 r2.
           returned (parallel_translate endpoint sched1 texts source_lang target_lang w1) = Inr r1
         \<and> returned (parallel_translate endpoint sched2 texts source_lang target_lang w2) = Inr r2
         \<and> mset r1 = mset r2
         \<and> calls (parallel_translate endpoint sched1 texts source_lang target_lang w1)
             = calls (parallel_translate endpoint sched2 texts source_lang target_lang w2)"
proof -
  let ?job = "\<lambda>i text. translate_text (endpoint i) text source_lang target_lang default_model_id"
  from dispatch_mset [OF assms(1), of ?job sched1 texts]
  obtain r1 where r1: "returned (parallel_translate_with ?job sched1 texts w1) = Inr r1"
    and m1: "mset r1 = mset (map (\<lambda>(i, t). collect_one t (job_future ?job i t)) (enumerate 0 texts))"
    by blast
  from dispatch_mset [OF assms(2), of ?job sched2 texts]
  obtain r2 where r2: "returned (parallel_translate_with ?job sched2 texts w2) = Inr r2"
    and m2: "mset r2 = mset (map (\<lambda>(i, t). collect_one t (job_future ?job i t)) (enumerate 0 texts))"
    by blast
  have "calls (parallel_translate_with ?job sched1 texts w1)
          = calls (parallel_translate_with ?job sched2 texts w2)"
    by (simp add: dispatch_exact [OF assms(1)] dispatch_exact [OF assms(2)])
  with r1 r2 m1 m2 show ?thesis
    unfolding parallel_translate_def by simp
qed

theorem max_workers_only_timing_witness:
  "(0::int) < 1 \<and> (0::int) < 2
   \<and> returned (parallel_translate first_call_fails [] [''Hello'', ''World''] ''en'' ''ja'' 1)
       = Inr [JStr ''Translation error: timed out'', JStr ''World!!'']
   \<and> returned (parallel_translate first_call_fails [1] [''Hello'', ''World''] ''en'' ''ja'' 2)
       = Inr [JStr ''World!!'', JStr ''Translation error: timed out'']
   \<and> (\<exists>r1 r2.
           returned (parallel_translate first_call_fails [] [''Hello'', ''World''] ''en'' ''ja'' 1) = Inr r1
         \<and> returned (parallel_translate first_call_fails [1] [''Hello'', ''World''] ''en'' ''ja'' 2) = Inr r2
         \<and> mset r1 = mset r2)"
proof -
  have h1: "(0::int) < 1" and h2: "(0::int) < 2" by simp_all
  have a: "returned (parallel_translate first_call_fails [] [''Hello'', ''World''] ''en'' ''ja'' 1)
       = Inr [JStr ''Translation error: timed out'', JStr ''World!!'']"
    by (simp add: parallel_translate_def dispatch_exact pick_def collect_one_eq
        translate_text_returns first_call_fails_def try_block_raising try_block_answering_str
        py_str_def timed_out_def)
  have b: "returned (parallel_translate first_call_fails [1] [''Hello'', ''World''] ''en'' ''ja'' 2)
       = Inr [JStr ''World!!'', JStr ''Translation error: timed out'']"
    by (simp add: parallel_translate_def dispatch_exact pick_def collect_one_eq
        translate_text_returns first_call_fails_def try_block_raising try_block_answering_str
        py_str_def timed_out_def)
  from max_workers_only_timing [OF h1 h2, of first_call_fails "[]" "[''Hello'', ''World'']"
      "''en''" "''ja''" "[1]"]
  have "\<exists>r1 r2.
           returned (parallel_translate first_call_fails [] [''Hello'', ''World''] ''en'' ''ja'' 1) = Inr r1
         \<and> returned (parallel_translate first_call_fails [1] [''Hello'', ''World''] ''en'' ''ja'' 2) = Inr r2
         \<and> mset r1 = mset r2"
    by blast
  with h1 h2 a b show ?thesis by blast
qed

text \<open>
  Claim C7. A worker count of zero or less makes \<open>parallel_translate\<close> raise the
  \<^verbatim>\<open>ValueError\<close> of the executor's constructor, with no job submitted and no remote
  call made; and whenever \<open>parallel_translate\<close> raises, the worker count was zero or
  less: there is no other way for the batch to fail as a whole.
\<close>

theorem nonpositive_max_workers_rejected:
  "(n \<le> 0 \<longrightarrow>
      parallel_translate endpoint sched texts source_lang target_lang n =
        \<lparr>returned = Inl (ValueError ''max_workers must be greater than 0''),
         submitted = 0, calls = []\<rparr>)
   \<and> ((\<exists>e. returned (parallel_translate endpoint sched texts source_lang target_lang n) = Inl e)
        \<longrightarrow> n \<le> 0)"
proof (cases "n \<le> 0")
  case True
  then show ?thesis
    by (simp add: parallel_translate_def dispatch_rejects)
next
  case False
  then have "0 < n" by simp
  then show ?thesis
    by (simp add: parallel_translate_def dispatch_exact)
qed

theorem nonpositive_max_workers_rejected_witness:
  "(0::int) \<le> 0
   \<and> parallel_translate first_call_fails [] [''Hello'', ''World''] ''en'' ''ja'' 0 =
        \<lparr>returned = Inl (ValueError ''max_workers must be greater than 0''),
         submitted = 0, calls = []\<rparr>
   \<and> (-3::int) \<le> 0
   \<and> parallel_translate first_call_fails [] [''Hello'', ''World''] ''en'' ''ja'' (-3) =
        \<lparr>returned = Inl (ValueError ''max_workers must be greater than 0''),
         submitted = 0, calls = []\<rparr>
   \<and> (\<exists>e. returned (parallel_translate first_call_fails [] [''Hello'', ''World''] ''en'' ''ja'' 0) = Inl e)"
proof -
  have a: "parallel_translate first_call_fails [] [''Hello'', ''World''] ''en'' ''ja'' 0 =
        \<lparr>returned = Inl (ValueError ''max_workers must be greater than 0''),
         submitted = 0, calls = []\<rparr>"
    using nonpositive_max_workers_rejected [of 0 first_call_fails "[]" "[''Hello'', ''World'']"
        "''en''" "''ja''"]
    by simp
  have b: "parallel_translate first_call_fails [] [''Hello'', ''World''] ''en'' ''ja'' (-3) =
        \<lparr>returned = Inl (ValueError ''max_workers must be greater than 0''),
         submitted = 0, calls = []\<rparr>"
    using nonpositive_max_workers_rejected [of "-3" first_call_fails "[]" "[''Hello'', ''World'']"
        "''en''" "''ja''"]
    by simp
  from a have "\<exists>e. returned (parallel_translate first_call_fails [] [''Hello'', ''World''] ''en'' ''ja'' 0) = Inl e"
    by simp
  with a b show ?thesis by simp
qed

text \<open>
  Claim C8. For the empty list and a positive worker count, \<open>parallel_translate\<close>
  returns the empty list, submits nothing and makes no remote call.
\<close>

theorem empty_input_no_calls:
  assumes "0 < n"
  shows "parallel_translate endpoint sched [] source_lang target_lang n =
           \<lparr>returned = Inr [], submitted = 0, calls = []\<rparr>"
  using assms by (simp add: parallel_translate_def dispatch_exact)

theorem empty_input_no_calls_witness:
  "(0::int) < 5
   \<and> parallel_translate first_call_fails [3, 1] [] ''en'' ''ja'' 5 =
        \<lparr>returned = Inr [], submitted = 0, calls = []\<rparr>"
proof -
  have h: "(0::int) < 5" by simp
  from h empty_input_no_calls [OF h, of first_call_fails "[3, 1]" "''en''" "''ja''"]
  show ?thesis by blast
qed

text \<open>
  Claim C9. In every run that gets past the constructor, the dict built at line 76 has
  one entry per element of \<open>texts\<close>, in order, repeated texts included: its values are
  \<open>texts\<close> itself, its keys are distinct futures, one work item was queued per element,
  and the returned list has one outcome per element.
\<close>

theorem repeated_texts_keep_their_own_jobs:
  assumes "ThreadPoolExecutor n = Inr executor"
    and "submit_all (\<lambda>i text. translate_text (endpoint i) text source_lang target_lang default_model_id)
           texts (executor, []) = (executor', future_to_text)"
  shows "map snd future_to_text = texts
       \<and> distinct (map fst future_to_text)
       \<and> length (work_items executor') = length texts
       \<and> (\<exists>rs. returned (parallel_translate endpoint sched texts source_lang target_lang n) = Inr rs
               \<and> length rs = length texts)"
proof -
  let ?job = "\<lambda>i text. translate_text (endpoint i) text source_lang target_lang default_model_id"
  from assms(1) have pos: "0 < n"
    and ex: "executor = \<lparr>max_workers = n, work_items = [], remote_calls = []\<rparr>"
    by (auto simp: ThreadPoolExecutor_def split: if_splits)
  from assms(2) have d: "future_to_text = dict_of ?job texts"
    and w: "work_items executor' = map fst (dict_of ?job texts)"
    unfolding ex submit_all_empty by auto
  have l: "length (map fst (dict_of ?job texts)) = length texts"
    by (simp add: dict_of_def)
  from dispatch_mset [OF pos, of ?job sched texts]
  have "\<exists>rs. returned (parallel_translate endpoint sched texts source_lang target_lang n) = Inr rs
               \<and> length rs = length texts"
    unfolding parallel_translate_def by blast
  then show ?thesis
    unfolding d w l by (simp add: snd_dict_of distinct_dict_of)
qed

text \<open>
  The list \<^verbatim>\<open>['a', 'a']\<close>, with an endpoint that answers the two calls differently:
  both occurrences have their entry in the dict and their own outcome in the result.
\<close>

theorem repeated_texts_keep_their_own_jobs_witness:
  "ThreadPoolExecutor 2 = Inr \<lparr>max_workers = 2, work_items = [], remote_calls = []\<rparr>
   \<and> \<not> distinct [''a'', ''a'']
   \<and> map snd (snd (submit_all (\<lambda>i text. translate_text (numbered i) text ''en'' ''ja'' default_model_id)
                      [''a'', ''a''] (\<lparr>max_workers = 2, work_items = [], remote_calls = []\<rparr>, [])))
       = [''a'', ''a'']
   \<and> distinct (map fst (snd (submit_all (\<lambda>i text. translate_text (numbered i) text ''en'' ''ja'' default_model_id)
                      [''a'', ''a''] (\<lparr>max_workers = 2, work_items = [], remote_calls = []\<rparr>, []))))
   \<and> returned (parallel_translate numbered [] [''a'', ''a''] ''en'' ''ja'' 2) = Inr [JStr [], JStr ''x'']"
proof -
  let ?ex = "\<lparr>max_workers = 2, work_items = [], remote_calls = []\<rparr>"
  let ?job = "\<lambda>i text. translate_text (numbered i) text ''en'' ''ja'' default_model_id"
  have h1: "ThreadPoolExecutor 2 = Inr ?ex"
    by (simp add: ThreadPoolExecutor_def)
  have h2: "submit_all ?job [''a'', ''a''] (?ex, []) =
              (fst (submit_all ?job [''a'', ''a''] (?ex, [])), snd (submit_all ?job [''a'', ''a''] (?ex, [])))"
    by simp
  have c: "returned (parallel_translate numbered [] [''a'', ''a''] ''en'' ''ja'' 2) = Inr [JStr [], JStr ''x'']"
    by (simp add: parallel_translate_def dispatch_exact pick_def collect_one_eq
        translate_text_returns numbered_def try_block_answering_str)
  from repeated_texts_keep_their_own_jobs [OF h1 h2] h1 c
  show ?thesis by simp
qed

lemma length_as_completed: "length (as_completed sched fs) = length fs"
  using mset_as_completed [of sched fs] by (rule mset_eq_length)

lemma map_const_replicate: "map (\<lambda>x. c) xs = replicate (length xs) c"
  by (induction xs) simp_all

text \<open>
  Claim C10. Outcomes are plain values with no tag for failure. A translation whose
  remote call raises \<open>e\<close> is returned as the string \<^verbatim>\<open>Translation error: <message>\<close>, and
  an endpoint that answers with that very string as its generated text makes
  \<open>translate_text\<close> return the same value after the same call, and makes
  \<open>parallel_translate\<close> behave exactly as with the failing endpoint: with a positive
  worker count both batches return that string once per text. Likewise in the collection
  loop: a job that raises \<open>e\<close> gives the entry \<^verbatim>\<open>Error for '<text>': <message>\<close> for its
  own text, a job that returns that string as its value passes it through unchanged, and
  the two result lists are the same. The caller cannot tell a failure from a translation
  that reads like one.
\<close>

theorem failure_is_in_band:
  "translate_text (raising e) text source_lang target_lang model_id
     = (Inr (JStr (''Translation error: '' @ py_str e)),
        [make_request text source_lang target_lang model_id])
   \<and> translate_text (answering (JStr (''Translation error: '' @ py_str e))) text source_lang target_lang model_id
     = (Inr (JStr (''Translation error: '' @ py_str e)),
        [make_request text source_lang target_lang model_id])
   \<and> parallel_translate (\<lambda>i. answering (JStr (''Translation error: '' @ py_str e))) sched texts
         source_lang target_lang n
     = parallel_translate (\<lambda>i. raising e) sched texts source_lang target_lang n
   \<and> returned (parallel_translate_with
         (\<lambda>i t. (Inr (JStr (''Error for '' @ apostrophe @ t @ apostrophe @ '': '' @ py_str e)), []))
         sched texts n)
     = returned (parallel_translate_with (\<lambda>i t. (Inl e, [])) sched texts n)
   \<and> (0 < n \<longrightarrow>
        returned (parallel_translate (\<lambda>i. raising e) sched texts source_lang target_lang n)
          = Inr (replicate (length texts) (JStr (''Translation error: '' @ py_str e)))
      \<and> returned (parallel_translate (\<lambda>i. answering (JStr (''Translation error: '' @ py_str e)))
                    sched texts source_lang target_lang n)
          = Inr (replicate (length texts) (JStr (''Translation error: '' @ py_str e)))
      \<and> returned (parallel_translate_with (\<lambda>i t. (Inl e, [])) sched texts n)
          = Inr (map (\<lambda>(i, t). JStr (''Error for '' @ apostrophe @ t @ apostrophe @ '': '' @ py_str e))
                   (as_completed sched (enumerate 0 texts)))
      \<and> returned (parallel_translate_with
            (\<lambda>i t. (Inr (JStr (''Error for '' @ apostrophe @ t @ apostrophe @ '': '' @ py_str e)), []))
            sched texts n)
          = Inr (map (\<lambda>(i, t). JStr (''Error for '' @ apostrophe @ t @ apostrophe @ '': '' @ py_str e))
                   (as_completed sched (enumerate 0 texts))))"
proof -
  let ?s = "JStr (''Translation error: '' @ py_str e)"
  have a: "translate_text (raising e) t source_lang target_lang m
     = (Inr ?s, [make_request t source_lang target_lang m])" for t m
    by (simp add: translate_text_def Let_def try_block_raising)
  have b: "translate_text (answering ?s) t source_lang target_lang m
     = (Inr ?s, [make_request t source_lang target_lang m])" for t m
    by (simp add: translate_text_def Let_def try_block_answering_str)
  have c: "parallel_translate (\<lambda>i. answering ?s) sched texts source_lang target_lang n
     = parallel_translate (\<lambda>i. raising e) sched texts source_lang target_lang n"
    unfolding parallel_translate_def by (simp only: a b)
  have d: "returned (parallel_translate_with
         (\<lambda>i t. (Inr (JStr (''Error for '' @ apostrophe @ t @ apostrophe @ '': '' @ py_str e)), []))
         sched texts n)
     = returned (parallel_translate_with (\<lambda>i t. (Inl e, [])) sched texts n)"
  proof (cases "n \<le> 0")
    case True
    then show ?thesis by (simp add: dispatch_rejects)
  next
    case False
    then have "0 < n" by simp
    then show ?thesis by (simp add: dispatch_exact collect_one_eq)
  qed
  have f: "returned (parallel_translate (\<lambda>i. raising e) sched texts source_lang target_lang n)
          = Inr (replicate (length texts) ?s)" if "0 < n"
  proof -
    have "returned (parallel_translate (\<lambda>i. raising e) sched texts source_lang target_lang n)
            = Inr (map (\<lambda>p. ?s) (as_completed sched (enumerate 0 texts)))"
      using that
      by (simp add: parallel_translate_def dispatch_exact collect_one_eq a case_prod_beta)
    then show ?thesis
      by (simp only: map_const_replicate length_as_completed length_enumerate)
  qed
  have g: "returned (parallel_translate_with (\<lambda>i t. (Inl e, [])) sched texts n)
          = Inr (map (\<lambda>(i, t). JStr (''Error for '' @ apostrophe @ t @ apostrophe @ '': '' @ py_str e))
                   (as_completed sched (enumerate 0 texts)))" if "0 < n"
    using that by (simp add: dispatch_exact collect_one_eq)
  from a b c d f g show ?thesis by simp
qed

text \<open>
  Two texts, the second job finishing first: the failing endpoint and the endpoint that
  answers with the failure text give the same list, and so do the job that raises and the
  job that returns the string of the collection loop.
\<close>

theorem failure_is_in_band_witness:
  "(0::int) < 2
   \<and> returned (parallel_translate (\<lambda>i. raising timed_out) [1] [''Hello'', ''World''] ''en'' ''ja'' 2)
       = Inr [JStr ''Translation error: timed out'', JStr ''Translation error: timed out'']
   \<and> returned (parallel_translate (\<lambda>i. answering (JStr ''Translation error: timed out'')) [1]
                 [''Hello'', ''World''] ''en'' ''ja'' 2)
       = Inr [JStr ''Translation error: timed out'', JStr ''Translation error: timed out'']
   \<and> returned (parallel_translate_with (\<lambda>i t. (Inl timed_out, [])) [1] [''Hello'', ''World''] 2)
       = Inr [JStr (''Error for '' @ apostrophe @ ''World'' @ apostrophe @ '': timed out''),
              JStr (''Error for '' @ apostrophe @ ''Hello'' @ apostrophe @ '': timed out'')]
   \<and> returned (parallel_translate_with
         (\<lambda>i t. (Inr (JStr (''Error for '' @ apostrophe @ t @ apostrophe @ '': timed out'')), []))
         [1] [''Hello'', ''World''] 2)
       = Inr [JStr (''Error for '' @ apostrophe @ ''World'' @ apostrophe @ '': timed out''),
              JStr (''Error for '' @ apostrophe @ ''Hello'' @ apostrophe @ '': timed out'')]"
proof -
  have s: "py_str timed_out = ''timed out''"
    by (simp add: py_str_def timed_out_def)
  have h: "(0::int) < 2" by simp
  from failure_is_in_band [of timed_out "''Hello''" "''en''" "''ja''" default_model_id "[1]"
      "[''Hello'', ''World'']" 2] h
  show ?thesis
    by (simp add: s pick_def)
qed

text \<open>
  The schedules do not restrict the completion order: every arrangement of the futures
  is the order of some schedule.
\<close>

lemma as_completed_any_order:
  "mset order = mset fs \<Longrightarrow> \<exists>sched. as_completed sched fs = order"
proof (induction order arbitrary: fs)
  case Nil
  then show ?case by simp
next
  case (Cons x xs)
  from Cons.prems have "x \<in> set fs"
    by (metis list.set_intros(1) mset_eq_setD)
  then obtain k where k: "k < length fs" and x: "fs ! k = x"
    by (auto simp: in_set_conv_nth)
  let ?rest = "take k fs @ drop (Suc k) fs"
  have ne: "fs \<noteq> []" using k by auto
  have "mset fs = mset ?rest + {#x#}"
    using id_take_nth_drop [OF k] x by (metis add_mset_add_single mset.simps(2) mset_append union_mset_add_mset_right)
  with Cons.prems have "mset xs = mset ?rest" by simp
  from Cons.IH [OF this] obtain sched where s: "as_completed sched ?rest = xs" by blast
  have p: "pick (k # sched) (length fs) = k"
    using k by (simp add: pick_def)
  have "as_completed (k # sched) fs = x # xs"
    using as_completed_step [OF ne, of "k # sched"] p x s by simp
  then show ?case by blast
qed

end
